theory Spec2Isabelle
  imports Main
begin

section \<open>JavaScript values seen by the handlers\<close>

text \<open>
  The repository is one file, \<^verbatim>\<open>server.js\<close>, in two versions: the first (lines 1-85)
  takes a JSON form, the second (lines 85-303) takes a multipart form with a payment
  image and wraps every handler in \<^verbatim>\<open>try/catch\<close>. Definitions ending in \<open>1\<close> embed the
  first version, those ending in \<open>2\<close> the second.

  A form field is a text or is absent: \<open>req.body\<close> is a dictionary from field names to
  texts, and an absent key reads as \<^verbatim>\<open>undefined\<close>. A text is a list of code units
  below 256.
\<close>

type_synonym body = "string \<rightharpoonup> string"

text \<open>\<^verbatim>\<open>!x\<close> is false exactly on a text that is present and not empty.\<close>

definition truthy :: "string option \<Rightarrow> bool" where
  "truthy v = (case v of None \<Rightarrow> False | Some s \<Rightarrow> s \<noteq> [])"

text \<open>The text of a field; only read after the required-field check has passed.\<close>

definition field :: "body \<Rightarrow> string \<Rightarrow> string" where
  "field b k = (case b k of None \<Rightarrow> [] | Some s \<Rightarrow> s)"

subsection \<open>Numbers and \<^verbatim>\<open>parseInt\<close>\<close>

text \<open>
  The Number values \<^verbatim>\<open>parseInt\<close> can return: \<^verbatim>\<open>NaN\<close>, the two infinities
  (\<open>Infinity True\<close> is the negative one), negative zero, and the finite Numbers that are
  integers.
\<close>

datatype jsnumber = NaN | Infinity bool | NegZero | IntVal int


text \<open>The number of binary digits of a positive integer.\<close>

function bitlen :: "int \<Rightarrow> nat" where
  "bitlen n = (if n \<le> 0 then 0 else Suc (bitlen (n div 2)))"
  by pat_completeness auto
termination
  by (relation "measure nat") auto

declare bitlen.simps [simp del]

text \<open>
  Rounding a positive integer to the nearest integer with at most 53 significant binary
  digits, ties to the even significand (the rounding of a double).
\<close>

definition round53 :: "int \<Rightarrow> int" where
  "round53 a =
     (let b = bitlen a in
      if b \<le> 53 then a
      else
        let e = b - 53; q = a div 2 ^ e; r = a mod 2 ^ e; h = 2 ^ (e - 1) in
        (if h < r \<or> (r = h \<and> odd q) then q + 1 else q) * 2 ^ e)"

text \<open>
  The Number value of a non-zero mathematical integer: from \<open>2^1024 - 2^970\<close> on, the
  magnitude rounds to infinity.
\<close>

definition toNumber :: "int \<Rightarrow> jsnumber" where
  "toNumber n =
     (if 2 ^ 1024 - 2 ^ 970 \<le> \<bar>n\<bar> then Infinity (n < 0)
      else IntVal (sgn n * round53 \<bar>n\<bar>))"

text \<open>White space and line terminators that \<^verbatim>\<open>parseInt\<close> skips, among code units below 256.\<close>

definition isStrWhiteSpaceChar :: "char \<Rightarrow> bool" where
  "isStrWhiteSpaceChar c = ((of_char c :: int) \<in> {9, 10, 11, 12, 13, 32, 160})"

text \<open>The value of a digit: \<^verbatim>\<open>0-9\<close>, then \<^verbatim>\<open>a-z\<close> and \<^verbatim>\<open>A-Z\<close> for 10 to 35.\<close>

definition digitValue :: "char \<Rightarrow> int option" where
  "digitValue c =
     (let n = (of_char c :: int) in
      if 48 \<le> n \<and> n \<le> 57 then Some (n - 48)
      else if 97 \<le> n \<and> n \<le> 122 then Some (n - 87)
      else if 65 \<le> n \<and> n \<le> 90 then Some (n - 55)
      else None)"

definition isRadixDigit :: "int \<Rightarrow> char \<Rightarrow> bool" where
  "isRadixDigit R c = (case digitValue c of None \<Rightarrow> False | Some d \<Rightarrow> d < R)"

definition mathInt :: "int \<Rightarrow> string \<Rightarrow> int" where
  "mathInt R Z = foldl (\<lambda>acc c. acc * R + (case digitValue c of None \<Rightarrow> 0 | Some d \<Rightarrow> d)) 0 Z"

text \<open>The text left after white space and the sign have been removed.\<close>

definition unsigned :: "string \<Rightarrow> string" where
  "unsigned inputString =
     (let S = dropWhile isStrWhiteSpaceChar inputString in
      if S \<noteq> [] \<and> (hd S = CHR ''+'' \<or> hd S = CHR ''-'') then tl S else S)"

definition negative :: "string \<Rightarrow> bool" where
  "negative inputString =
     (let S = dropWhile isStrWhiteSpaceChar inputString in S \<noteq> [] \<and> hd S = CHR ''-'')"

text \<open>The radix: 16 after a \<^verbatim>\<open>0x\<close> or \<^verbatim>\<open>0X\<close> prefix, which is removed, and 10 otherwise.\<close>

definition hexPrefix :: "string \<Rightarrow> bool" where
  "hexPrefix S = (take 2 S = ''0x'' \<or> take 2 S = ''0X'')"

definition radix :: "string \<Rightarrow> int" where
  "radix inputString = (if hexPrefix (unsigned inputString) then 16 else 10)"

text \<open>The longest prefix of digits of the radix, \<open>Z\<close> in the language definition.\<close>

definition digits :: "string \<Rightarrow> string" where
  "digits inputString =
     (let S = unsigned inputString; S' = (if hexPrefix S then drop 2 S else S) in
      takeWhile (isRadixDigit (radix inputString)) S')"

text \<open>\<^verbatim>\<open>parseInt(string)\<close> with no radix argument, on a text.\<close>

definition parseInt :: "string \<Rightarrow> jsnumber" where
  "parseInt inputString =
     (let Z = digits inputString; m = mathInt (radix inputString) Z in
      if Z = [] then NaN
      else if m = 0 then (if negative inputString then NegZero else IntVal 0)
      else toNumber ((if negative inputString then - 1 else 1) * m))"

section \<open>The store and the file system\<close>

text \<open>
  A document of the \<^verbatim>\<open>users\<close> collection. \<open>ident\<close> is the \<^verbatim>\<open>_id\<close> the driver assigns on
  insertion; the two payment fields are present only in documents written by the second
  version.
\<close>

type_synonym oid = string

record user =
  ident :: oid
  name :: string
  email :: string
  phone :: string
  age :: jsnumber
  gender :: string
  experience :: string
  participation :: string
  paymentScreenshot :: "string option"
  paymentScreenshotPath :: "string option"
  registeredAt :: int

text \<open>
  What lives outside the process: the documents of the collection in storage order, and
  the paths of the files on disk.
\<close>

record world =
  users :: "user list"
  files :: "string set"

definition empty_world :: world where
  "empty_world = \<lparr>users = [], files = {}\<rparr>"

text \<open>Thrown values; only their message is ever read.\<close>

datatype exn = TypeError string | BSONError string | MongoError string | SystemError string

fun message :: "exn \<Rightarrow> string" where
  "message (TypeError m) = m"
| "message (BSONError m) = m"
| "message (MongoError m) = m"
| "message (SystemError m) = m"

datatype store_op = FindOne | InsertOne | Find | CountDocuments | DeleteOne

text \<open>
  What one call finds around it: whether \<^verbatim>\<open>usersCollection\<close> has been assigned, which
  store operations fail and with what, the clock read by \<^verbatim>\<open>new Date()\<close>, the identifier
  the driver gives to an inserted document, and the driver's \<^verbatim>\<open>ObjectId\<close> constructor on a
  text.
\<close>

record env =
  handle :: bool
  fault :: "store_op \<Rightarrow> exn option"
  clock :: int
  fresh :: oid
  ObjectId :: "string \<Rightarrow> exn + oid"

fun method_name :: "store_op \<Rightarrow> string" where
  "method_name FindOne = ''findOne''"
| "method_name InsertOne = ''insertOne''"
| "method_name Find = ''find''"
| "method_name CountDocuments = ''countDocuments''"
| "method_name DeleteOne = ''deleteOne''"

text \<open>What reading a method off the unassigned variable throws.\<close>

definition unassigned :: "store_op \<Rightarrow> exn" where
  "unassigned op =
     TypeError (''Cannot read properties of undefined (reading '' @ [CHR 0x27] @ method_name op @
       [CHR 0x27] @ '')'')"

text \<open>
  Calling a method of \<^verbatim>\<open>usersCollection\<close>: a \<^verbatim>\<open>TypeError\<close> when the variable is still
  \<^verbatim>\<open>undefined\<close>, the store's own failure otherwise, or nothing thrown.
\<close>

definition usersCollection :: "env \<Rightarrow> store_op \<Rightarrow> exn option" where
  "usersCollection e op = (if \<not> handle e then Some (unassigned op) else fault e op)"

definition findOne :: "env \<Rightarrow> (user \<Rightarrow> bool) \<Rightarrow> world \<Rightarrow> exn + user option" where
  "findOne e q w =
     (case usersCollection e FindOne of Some x \<Rightarrow> Inl x | None \<Rightarrow> Inr (find q (users w)))"

text \<open>The store keeps \<^verbatim>\<open>_id\<close> unique: inserting under an identifier in use is refused.\<close>

definition insertOne :: "env \<Rightarrow> user \<Rightarrow> world \<Rightarrow> exn + world" where
  "insertOne e doc w =
     (case usersCollection e InsertOne of
        Some x \<Rightarrow> Inl x
      | None \<Rightarrow>
          if fresh e \<in> ident ` set (users w) then Inl (MongoError ''E11000 duplicate key error'')
          else Inr (w\<lparr>users := users w @ [doc\<lparr>ident := fresh e\<rparr>]\<rparr>))"

definition find_toArray :: "env \<Rightarrow> world \<Rightarrow> exn + user list" where
  "find_toArray e w =
     (case usersCollection e Find of Some x \<Rightarrow> Inl x | None \<Rightarrow> Inr (users w))"

definition countDocuments :: "env \<Rightarrow> (user \<Rightarrow> bool) \<Rightarrow> world \<Rightarrow> exn + nat" where
  "countDocuments e q w =
     (case usersCollection e CountDocuments of
        Some x \<Rightarrow> Inl x
      | None \<Rightarrow> Inr (length (filter q (users w))))"

text \<open>\<^verbatim>\<open>deleteOne\<close> removes the first document that matches, if there is one.\<close>

fun remove_first :: "('a \<Rightarrow> bool) \<Rightarrow> 'a list \<Rightarrow> 'a list" where
  "remove_first q [] = []"
| "remove_first q (x # xs) = (if q x then xs else x # remove_first q xs)"

definition deleteOne :: "env \<Rightarrow> (user \<Rightarrow> bool) \<Rightarrow> world \<Rightarrow> exn + world" where
  "deleteOne e q w =
     (case usersCollection e DeleteOne of
        Some x \<Rightarrow> Inl x
      | None \<Rightarrow> Inr (w\<lparr>users := remove_first q (users w)\<rparr>))"

text \<open>\<^verbatim>\<open>fs.existsSync\<close> and \<^verbatim>\<open>fs.unlinkSync\<close>; the latter throws on a path with no file.\<close>

definition existsSync :: "string \<Rightarrow> world \<Rightarrow> bool" where
  "existsSync p w = (p \<in> files w)"

definition unlinkSync :: "string \<Rightarrow> world \<Rightarrow> exn + world" where
  "unlinkSync p w =
     (if p \<in> files w then Inr (w\<lparr>files := files w - {p}\<rparr>)
      else Inl (SystemError ''ENOENT: no such file or directory''))"

section \<open>Responses\<close>

record stats =
  total :: nat
  male :: nat
  female :: nat
  beginners :: nat
  competition :: nat
  workshop :: nat

datatype payload = Message string | Users "user list" | Stats stats

record response =
  status :: nat
  payload :: payload

text \<open>\<^verbatim>\<open>res.json(x)\<close> answers with status 200, \<^verbatim>\<open>res.status(n).json(x)\<close> with status \<open>n\<close>.\<close>

definition json :: "payload \<Rightarrow> response" where
  "json x = \<lparr>status = 200, payload = x\<rparr>"

definition status_json :: "nat \<Rightarrow> payload \<Rightarrow> response" where
  "status_json n x = \<lparr>status = n, payload = x\<rparr>"

section \<open>Submit registration\<close>


text \<open>The condition of the first \<^verbatim>\<open>if\<close> of both versions of \<^verbatim>\<open>POST /register\<close>.\<close>

definition missing_required :: "body \<Rightarrow> bool" where
  "missing_required b =
     (\<not> truthy (b ''name'') \<or> \<not> truthy (b ''email'') \<or> \<not> truthy (b ''phone'') \<or>
      \<not> truthy (b ''age'') \<or> \<not> truthy (b ''gender'') \<or> \<not> truthy (b ''experience'') \<or>
      \<not> truthy (b ''participation''))"

subsection \<open>First version\<close>

text \<open>The document handed to \<^verbatim>\<open>insertOne\<close>; the driver fills in the identifier.\<close>

definition new_user1 :: "env \<Rightarrow> body \<Rightarrow> user" where
  "new_user1 e b =
     \<lparr>ident = [], name = field b ''name'', email = field b ''email'',
      phone = field b ''phone'', age = parseInt (field b ''age''),
      gender = field b ''gender'', experience = field b ''experience'',
      participation = field b ''participation'',
      paymentScreenshot = None, paymentScreenshotPath = None, registeredAt = clock e\<rparr>"

text \<open>
  The handler has no \<^verbatim>\<open>try/catch\<close>: what a store call throws leaves the handler (\<open>Inl\<close>)
  and no response is written. It runs in two stretches, cut where it waits for
  \<^verbatim>\<open>findOne\<close>: \<open>register1_lookup\<close> up to the decision to insert, \<open>register1_insert\<close> after.
\<close>

definition register1_lookup :: "env \<Rightarrow> body \<Rightarrow> world \<Rightarrow> (exn + response) option" where
  "register1_lookup e b w =
     (if missing_required b then Some (Inr (status_json 400 (Message ''All fields are required'')))
      else
        case findOne e (\<lambda>u. email u = field b ''email'') w of
          Inl x \<Rightarrow> Some (Inl x)
        | Inr (Some existing) \<Rightarrow> Some (Inr (json (Message ''User already registered with this email'')))
        | Inr None \<Rightarrow> None)"

definition register1_insert :: "env \<Rightarrow> body \<Rightarrow> world \<Rightarrow> (exn + response) \<times> world" where
  "register1_insert e b w =
     (case insertOne e (new_user1 e b) w of
        Inl x \<Rightarrow> (Inl x, w)
      | Inr w' \<Rightarrow> (Inr (json (Message ''Registration successful! See you at the festival!'')), w'))"

definition register1 :: "env \<Rightarrow> body \<Rightarrow> world \<Rightarrow> (exn + response) \<times> world" where
  "register1 e b w =
     (case register1_lookup e b w of
        Some r \<Rightarrow> (r, w)
      | None \<Rightarrow> register1_insert e b w)"

subsection \<open>Second version\<close>

text \<open>
  \<open>req.file\<close> as the upload middleware leaves it: absent, or the name and the path of the
  file it has written to the payments directory before the handler starts.
\<close>

record upload =
  filename :: string
  path :: string

record request =
  req_body :: body
  req_file :: "upload option"

definition new_user2 :: "env \<Rightarrow> body \<Rightarrow> upload \<Rightarrow> user" where
  "new_user2 e b f =
     \<lparr>ident = [], name = field b ''name'', email = field b ''email'',
      phone = field b ''phone'', age = parseInt (field b ''age''),
      gender = field b ''gender'', experience = field b ''experience'',
      participation = field b ''participation'',
      paymentScreenshot = Some (filename f), paymentScreenshotPath = Some (path f),
      registeredAt = clock e\<rparr>"

text \<open>The \<^verbatim>\<open>catch\<close> block of the handler.\<close>

definition registration_failed :: "exn \<Rightarrow> response" where
  "registration_failed x = status_json 500 (Message (''Registration failed: '' @ message x))"

definition register2 :: "env \<Rightarrow> request \<Rightarrow> world \<Rightarrow> response \<times> world" where
  "register2 e req w =
     (if missing_required (req_body req) then
        (status_json 400 (Message ''All fields are required''), w)
      else
        case req_file req of
          None \<Rightarrow> (status_json 400 (Message ''Payment screenshot is required''), w)
        | Some f \<Rightarrow>
            (case findOne e (\<lambda>u. email u = field (req_body req) ''email'') w of
               Inl x \<Rightarrow> (registration_failed x, w)
             | Inr (Some existing) \<Rightarrow>
                 (case unlinkSync (path f) w of
                    Inl x \<Rightarrow> (registration_failed x, w)
                  | Inr w' \<Rightarrow>
                      (status_json 400 (Message ''User already registered with this email''), w'))
             | Inr None \<Rightarrow>
                 (case insertOne e (new_user2 e (req_body req) f) w of
                    Inl x \<Rightarrow> (registration_failed x, w)
                  | Inr w' \<Rightarrow>
                      (json (Message ''Registration successful! Payment verification in progress. See you at the festival!''), w'))))"

text \<open>
  The upload middleware runs before the handler: when it hands the handler a \<open>req.file\<close>,
  the file of that path is on disk.
\<close>

definition upload_single :: "request \<Rightarrow> world \<Rightarrow> world" where
  "upload_single req w =
     (case req_file req of None \<Rightarrow> w | Some f \<Rightarrow> w\<lparr>files := insert (path f) (files w)\<rparr>)"

definition post_register2 :: "env \<Rightarrow> request \<Rightarrow> world \<Rightarrow> response \<times> world" where
  "post_register2 e req w = register2 e req (upload_single req w)"

section \<open>List registrations\<close>

definition get_users1 :: "env \<Rightarrow> world \<Rightarrow> exn + response" where
  "get_users1 e w = (case find_toArray e w of Inl x \<Rightarrow> Inl x | Inr us \<Rightarrow> Inr (json (Users us)))"

definition get_users2 :: "env \<Rightarrow> world \<Rightarrow> response" where
  "get_users2 e w =
     (case find_toArray e w of
        Inl x \<Rightarrow> status_json 500 (Message ''Failed to fetch users'')
      | Inr us \<Rightarrow> json (Users us))"

section \<open>Compute statistics\<close>

text \<open>Waiting for a store call: what it throws ends the sequence of calls.\<close>

definition await :: "exn + 'a \<Rightarrow> ('a \<Rightarrow> exn + 'b) \<Rightarrow> exn + 'b" where
  "await r k = (case r of Inl x \<Rightarrow> Inl x | Inr v \<Rightarrow> k v)"

text \<open>The six counting queries, the same in both versions.\<close>

definition count_all :: "env \<Rightarrow> world \<Rightarrow> exn + stats" where
  "count_all e w =
     await (countDocuments e (\<lambda>u. True) w) (\<lambda>total.
     await (countDocuments e (\<lambda>u. gender u = ''male'') w) (\<lambda>male.
     await (countDocuments e (\<lambda>u. gender u = ''female'') w) (\<lambda>female.
     await (countDocuments e (\<lambda>u. experience u = ''beginner'') w) (\<lambda>beginners.
     await (countDocuments e (\<lambda>u. participation u \<in> {''competition'', ''both''}) w) (\<lambda>competition.
     await (countDocuments e (\<lambda>u. participation u \<in> {''workshop'', ''both''}) w) (\<lambda>workshop.
     Inr \<lparr>total = total, male = male, female = female, beginners = beginners,
          competition = competition, workshop = workshop\<rparr>))))))"

definition get_stats1 :: "env \<Rightarrow> world \<Rightarrow> exn + response" where
  "get_stats1 e w = (case count_all e w of Inl x \<Rightarrow> Inl x | Inr s \<Rightarrow> Inr (json (Stats s)))"

definition get_stats2 :: "env \<Rightarrow> world \<Rightarrow> response" where
  "get_stats2 e w =
     (case count_all e w of
        Inl x \<Rightarrow> status_json 500 (Message ''Failed to fetch statistics'')
      | Inr s \<Rightarrow> json (Stats s))"

section \<open>Delete registration\<close>

text \<open>
  In \<^verbatim>\<open>usersCollection.deleteOne({ _id: new ObjectId(id) })\<close> the method is read off the
  variable before the argument is built, so an unassigned variable throws first, a
  malformed identifier second, and the store is called last.
\<close>

definition delete1 :: "env \<Rightarrow> string \<Rightarrow> world \<Rightarrow> (exn + response) \<times> world" where
  "delete1 e params_id w =
     (if \<not> handle e then (Inl (unassigned DeleteOne), w)
      else
        case ObjectId e params_id of
          Inl x \<Rightarrow> (Inl x, w)
        | Inr oid \<Rightarrow>
            (case deleteOne e (\<lambda>u. ident u = oid) w of
               Inl x \<Rightarrow> (Inl x, w)
             | Inr w' \<Rightarrow> (Inr (json (Message ''User deleted successfully'')), w')))"

text \<open>Lines 269-273 of the second version: the stored image goes first, if it is there.\<close>

definition remove_image :: "user option \<Rightarrow> world \<Rightarrow> exn + world" where
  "remove_image found w =
     (case found of
        None \<Rightarrow> Inr w
      | Some u \<Rightarrow>
          (case paymentScreenshotPath u of
             None \<Rightarrow> Inr w
           | Some p \<Rightarrow>
               if p \<noteq> [] then (if existsSync p w then unlinkSync p w else Inr w)
               else Inr w))"

definition delete_failed :: response where
  "delete_failed = status_json 500 (Message ''Failed to delete user'')"

definition delete2 :: "env \<Rightarrow> string \<Rightarrow> world \<Rightarrow> response \<times> world" where
  "delete2 e params_id w =
     (if \<not> handle e then (delete_failed, w)
      else
        case ObjectId e params_id of
          Inl x \<Rightarrow> (delete_failed, w)
        | Inr oid \<Rightarrow>
            (case findOne e (\<lambda>u. ident u = oid) w of
               Inl x \<Rightarrow> (delete_failed, w)
             | Inr found \<Rightarrow>
                 (case remove_image found w of
                    Inl x \<Rightarrow> (delete_failed, w)
                  | Inr w1 \<Rightarrow>
                      (case ObjectId e params_id of
                         Inl x \<Rightarrow> (delete_failed, w1)
                       | Inr oid' \<Rightarrow>
                           (case deleteOne e (\<lambda>u. ident u = oid') w1 of
                              Inl x \<Rightarrow> (delete_failed, w1)
                            | Inr w2 \<Rightarrow> (json (Message ''User deleted successfully''), w2))))))"

section \<open>Calls one after another\<close>

datatype 'r call = PostRegister 'r | GetUsers | GetStats | DeleteUser string

fun step1 :: "env \<times> body call \<Rightarrow> world \<Rightarrow> (exn + response) \<times> world" where
  "step1 (e, PostRegister b) w = register1 e b w"
| "step1 (e, GetUsers) w = (get_users1 e w, w)"
| "step1 (e, GetStats) w = (get_stats1 e w, w)"
| "step1 (e, DeleteUser params_id) w = delete1 e params_id w"

fun step2 :: "env \<times> request call \<Rightarrow> world \<Rightarrow> response \<times> world" where
  "step2 (e, PostRegister req) w = post_register2 e req w"
| "step2 (e, GetUsers) w = (get_users2 e w, w)"
| "step2 (e, GetStats) w = (get_stats2 e w, w)"
| "step2 (e, DeleteUser params_id) w = delete2 e params_id w"

text \<open>The world after a sequence of calls, each one finished before the next starts.\<close>

fun run1 :: "(env \<times> body call) list \<Rightarrow> world \<Rightarrow> world" where
  "run1 [] w = w"
| "run1 (c # cs) w = run1 cs (snd (step1 c w))"

fun run2 :: "(env \<times> request call) list \<Rightarrow> world \<Rightarrow> world" where
  "run2 [] w = w"
| "run2 (c # cs) w = run2 cs (snd (step2 c w))"


definition unique_idents :: "world \<Rightarrow> bool" where
  "unique_idents w = distinct (map ident (users w))"

section \<open>Submissions that overlap\<close>



section \<open>Start of the process\<close>








section \<open>Concrete inputs\<close>

text \<open>
  The \<^verbatim>\<open>ObjectId\<close> constructor of the current driver on a text: 24 hexadecimal digits, or
  else it throws.
\<close>

definition isHexDigit :: "char \<Rightarrow> bool" where
  "isHexDigit c = isRadixDigit 16 c"

definition hex24 :: "string \<Rightarrow> exn + oid" where
  "hex24 s =
     (if length s = 24 \<and> list_all isHexDigit s then Inr s
      else Inl (BSONError ''input must be a 24 character hex string, 12 byte Uint8Array, or an integer''))"

text \<open>A call made while the store is connected and answers.\<close>

definition env0 :: env where
  "env0 = \<lparr>handle = True, fault = (\<lambda>op. None), clock = 1700000000000,
           fresh = ''65a000000000000000000001'', ObjectId = hex24\<rparr>"

definition env1 :: env where
  "env1 = env0\<lparr>clock := 1700000000500, fresh := ''65a000000000000000000002''\<rparr>"

text \<open>The submission of the specification's scenario.\<close>

definition ana :: body where
  "ana = [''name'' \<mapsto> ''Ana'', ''email'' \<mapsto> ''a@x.com'', ''phone'' \<mapsto> ''555'',
          ''age'' \<mapsto> ''24'', ''gender'' \<mapsto> ''female'', ''experience'' \<mapsto> ''beginner'',
          ''participation'' \<mapsto> ''both'']"

definition receipt :: upload where
  "receipt = \<lparr>filename = ''1700000000000_555_pay.png'',
              path = ''/app/payments/1700000000000_555_pay.png''\<rparr>"

definition receipt' :: upload where
  "receipt' = \<lparr>filename = ''1700000000400_555_pay.png'',
               path = ''/app/payments/1700000000400_555_pay.png''\<rparr>"

text \<open>A call during which the store refuses the insertion.\<close>

definition env_insert_down :: env where
  "env_insert_down = env0\<lparr>fault := (\<lambda>op. if op = InsertOne then Some (MongoError ''connection closed'') else None)\<rparr>"

section \<open>Notions used in the statements\<close>






text \<open>The identifiers the driver hands out during a sequence of calls.\<close>

fun issued :: "(env \<times> 'r call) list \<Rightarrow> oid set" where
  "issued [] = {}"
| "issued ((e, PostRegister r) # cs) = insert (fresh e) (issued cs)"
| "issued ((e, GetUsers) # cs) = issued cs"
| "issued ((e, GetStats) # cs) = issued cs"
| "issued ((e, DeleteUser i) # cs) = issued cs"

text \<open>The paths \<open>remove_image\<close> is after: the non-empty image path of the document found.\<close>

definition image_paths :: "user option \<Rightarrow> string set" where
  "image_paths found =
     (case found of
        None \<Rightarrow> {}
      | Some u \<Rightarrow> (case paymentScreenshotPath u of None \<Rightarrow> {} | Some p \<Rightarrow> if p = [] then {} else {p}))"


section \<open>Required fields\<close>





lemma register2_invalid:
  "missing_required (req_body req) \<Longrightarrow>
   register2 e req w = (\<lparr>status = 400, payload = Message ''All fields are required''\<rparr>, w)"
  by (simp add: register2_def status_json_def)

lemma users_upload_single: "users (upload_single req w) = users w"
  by (simp add: upload_single_def split: option.splits)



section \<open>One record per email\<close>

lemma find_email_None: "find (\<lambda>u. email u = x) us = None \<longleftrightarrow> x \<notin> email ` set us"
  by (auto simp: find_None_iff)

lemma find_email_Some: "x \<in> email ` set us \<Longrightarrow> \<exists>u. find (\<lambda>u. email u = x) us = Some u"
  by (cases "find (\<lambda>u. email u = x) us") (auto simp: find_None_iff)

lemma set_remove_first: "set (remove_first q xs) \<subseteq> set xs"
  by (induction xs) auto

lemma distinct_map_remove_first:
  "distinct (map f xs) \<Longrightarrow> distinct (map f (remove_first q xs))"
proof (induction xs)
  case Nil
  then show ?case by simp
next
  case (Cons x xs)
  have "f x \<notin> f ` set (remove_first q xs)" if "f x \<notin> f ` set xs"
    using that set_remove_first [of q xs] by blast
  with Cons show ?case by simp
qed

text \<open>What a registration of the first version can do to the world.\<close>

lemma register1_effect:
  "snd (register1 e b w) = w \<or>
   (field b ''email'' \<notin> email ` set (users w) \<and> fresh e \<notin> ident ` set (users w) \<and>
    snd (register1 e b w) = w\<lparr>users := users w @ [(new_user1 e b)\<lparr>ident := fresh e\<rparr>]\<rparr>)"
  by (auto simp: register1_def register1_lookup_def register1_insert_def findOne_def insertOne_def
      find_email_None split: option.splits sum.splits if_splits)

lemma register2_effect:
  "snd (register2 e req w) = w \<or>
   (\<exists>f. req_file req = Some f \<and> snd (register2 e req w) = w\<lparr>files := files w - {path f}\<rparr>) \<or>
   (\<exists>f. req_file req = Some f \<and>
        field (req_body req) ''email'' \<notin> email ` set (users w) \<and> fresh e \<notin> ident ` set (users w) \<and>
        snd (register2 e req w) =
          w\<lparr>users := users w @ [(new_user2 e (req_body req) f)\<lparr>ident := fresh e\<rparr>]\<rparr>)"
  by (auto simp: register2_def findOne_def insertOne_def unlinkSync_def
      find_email_None split: option.splits sum.splits if_splits)




lemma register1_unique_idents: "unique_idents w \<Longrightarrow> unique_idents (snd (register1 e b w))"
  using register1_effect [of e b w]
  by (auto simp: unique_idents_def)


lemma register2_unique_idents: "unique_idents w \<Longrightarrow> unique_idents (snd (register2 e req w))"
  using register2_effect [of e req w]
  by (auto simp: unique_idents_def)

lemma delete1_users:
  "users (snd (delete1 e i w)) = users w \<or>
   (\<exists>q. users (snd (delete1 e i w)) = remove_first q (users w))"
  by (auto simp: delete1_def deleteOne_def split: sum.splits option.splits)

lemma users_remove_image: "remove_image found w = Inr w1 \<Longrightarrow> users w1 = users w"
  by (auto simp: remove_image_def unlinkSync_def split: option.splits if_splits)

lemma delete2_users:
  "users (snd (delete2 e i w)) = users w \<or>
   (\<exists>q. users (snd (delete2 e i w)) = remove_first q (users w))"
  by (auto simp: delete2_def deleteOne_def split: sum.splits option.splits dest!: users_remove_image)






lemma parseInt_24: "parseInt ''24'' = IntVal 24"
  by code_simp

lemmas handler_defs =
  register1_def register1_lookup_def register1_insert_def register2_def post_register2_def
  upload_single_def findOne_def insertOne_def usersCollection_def unlinkSync_def existsSync_def
  new_user1_def new_user2_def field_def missing_required_def truthy_def json_def status_json_def
  registration_failed_def

lemmas input_defs = env0_def env1_def ana_def receipt_def receipt'_def empty_world_def

lemma ana_world1:
  "snd (register1 env0 ana empty_world) =
     \<lparr>users = [\<lparr>ident = ''65a000000000000000000001'', name = ''Ana'', email = ''a@x.com'',
        phone = ''555'', age = IntVal 24, gender = ''female'', experience = ''beginner'',
        participation = ''both'', paymentScreenshot = None, paymentScreenshotPath = None,
        registeredAt = 1700000000000\<rparr>], files = {}\<rparr>"
  by (simp add: handler_defs input_defs parseInt_24)

lemma ana_world2:
  "snd (post_register2 env0 \<lparr>req_body = ana, req_file = Some receipt\<rparr> empty_world) =
     \<lparr>users = [\<lparr>ident = ''65a000000000000000000001'', name = ''Ana'', email = ''a@x.com'',
        phone = ''555'', age = IntVal 24, gender = ''female'', experience = ''beginner'',
        participation = ''both'', paymentScreenshot = Some ''1700000000000_555_pay.png'',
        paymentScreenshotPath = Some ''/app/payments/1700000000000_555_pay.png'',
        registeredAt = 1700000000000\<rparr>], files = {''/app/payments/1700000000000_555_pay.png''}\<rparr>"
  by (simp add: handler_defs input_defs parseInt_24)




lemma register2_duplicate:
  assumes "\<not> missing_required (req_body req)" and "req_file req = Some f" and "path f \<in> files w"
    and "handle e" and "fault e FindOne = None"
    and "field (req_body req) ''email'' \<in> email ` set (users w)"
  shows "register2 e req w =
           (\<lparr>status = 400, payload = Message ''User already registered with this email''\<rparr>,
            w\<lparr>files := files w - {path f}\<rparr>)"
proof -
  from assms(6) obtain u where "find (\<lambda>u. email u = field (req_body req) ''email'') (users w) = Some u"
    using find_email_Some by blast
  with assms(1-5) show ?thesis
    by (simp add: register2_def findOne_def usersCollection_def unlinkSync_def status_json_def)
qed

lemma register1_duplicate:
  assumes "\<not> missing_required b" and "handle e" and "fault e FindOne = None"
    and "field b ''email'' \<in> email ` set (users w)"
  shows "register1 e b w =
           (Inr \<lparr>status = 200, payload = Message ''User already registered with this email''\<rparr>, w)"
proof -
  from assms(4) obtain u where "find (\<lambda>u. email u = field b ''email'') (users w) = Some u"
    using find_email_Some by blast
  with assms(1-3) show ?thesis
    by (simp add: register1_def register1_lookup_def findOne_def usersCollection_def json_def)
qed

lemma upload_then_unlink:
  "(upload_single \<lparr>req_body = b, req_file = Some f\<rparr> w)
     \<lparr>files := files (upload_single \<lparr>req_body = b, req_file = Some f\<rparr> w) - {path f}\<rparr> =
   w\<lparr>files := files w - {path f}\<rparr>"
  by (simp add: upload_single_def)



text \<open>
  C3. The second version removes the uploaded file on the duplicate branch only. Here a
  submission with an image and no name is answered with 400, and a complete submission
  whose insert fails in the store is answered with 500; in both cases the file that the
  upload middleware wrote is still on the disk when the response is returned.
\<close>

theorem C3_upload_left_on_disk:
  "post_register2 env0 \<lparr>req_body = ana(''name'' := None), req_file = Some receipt\<rparr> empty_world =
     (\<lparr>status = 400, payload = Message ''All fields are required''\<rparr>,
      \<lparr>users = [], files = {''/app/payments/1700000000000_555_pay.png''}\<rparr>) \<and>
   post_register2 env_insert_down \<lparr>req_body = ana, req_file = Some receipt\<rparr> empty_world =
     (\<lparr>status = 500, payload = Message ''Registration failed: connection closed''\<rparr>,
      \<lparr>users = [], files = {''/app/payments/1700000000000_555_pay.png''}\<rparr>)"
  by (simp add: handler_defs input_defs env_insert_down_def)

lemma invalid_keeps_upload:
  "missing_required (req_body req) \<Longrightarrow> req_file req = Some f \<Longrightarrow>
   path f \<in> files (snd (post_register2 e req w))"
  by (simp add: post_register2_def register2_invalid upload_single_def)

lemma failed_insert_keeps_upload:
  assumes "\<not> missing_required (req_body req)" and "req_file req = Some f"
    and "handle e" and "fault e FindOne = None" and "fault e InsertOne = Some x"
    and "field (req_body req) ''email'' \<notin> email ` set (users w)"
  shows "post_register2 e req w =
           (\<lparr>status = 500, payload = Message (''Registration failed: '' @ message x)\<rparr>,
            upload_single req w)"
proof -
  from assms(6) have "find (\<lambda>u. email u = field (req_body req) ''email'') (users w) = None"
    by (simp add: find_email_None)
  with assms(1-5) show ?thesis
    by (simp add: post_register2_def register2_def findOne_def insertOne_def usersCollection_def
        users_upload_single registration_failed_def status_json_def)
qed

text \<open>
  C4. On a complete submission whose email already has a record, the first version answers
  with status 200 and the second with status 400. The message text is the same in both,
  so the two responses differ and differ in the status only. Neither version changes the
  records; the second removes the file that came with the request, so that after the
  whole request the world is the same in both versions when the upload had a new path.
\<close>

theorem C4_duplicate_policy:
  assumes "\<not> missing_required b" and "handle e" and "fault e FindOne = None"
    and "b ''email'' = Some a" and "a \<in> email ` set (users w)"
  shows "register1 e b w =
           (Inr \<lparr>status = 200, payload = Message ''User already registered with this email''\<rparr>, w) \<and>
         post_register2 e \<lparr>req_body = b, req_file = Some f\<rparr> w =
           (\<lparr>status = 400, payload = Message ''User already registered with this email''\<rparr>,
            w\<lparr>files := files w - {path f}\<rparr>) \<and>
         fst (register1 e b w) \<noteq> Inr (fst (post_register2 e \<lparr>req_body = b, req_file = Some f\<rparr> w)) \<and>
         (path f \<notin> files w \<longrightarrow>
            snd (post_register2 e \<lparr>req_body = b, req_file = Some f\<rparr> w) = snd (register1 e b w))"
proof -
  let ?req = "\<lparr>req_body = b, req_file = Some f\<rparr>"
  from assms(4,5) have dup: "field b ''email'' \<in> email ` set (users w)"
    by (simp add: field_def)
  have 1: "register1 e b w =
      (Inr \<lparr>status = 200, payload = Message ''User already registered with this email''\<rparr>, w)"
    using assms(1-3) dup by (rule register1_duplicate)
  have "path f \<in> files (upload_single ?req w)"
    by (simp add: upload_single_def)
  moreover have "field (req_body ?req) ''email'' \<in> email ` set (users (upload_single ?req w))"
    using dup by (simp add: users_upload_single)
  ultimately have "register2 e ?req (upload_single ?req w) =
      (\<lparr>status = 400, payload = Message ''User already registered with this email''\<rparr>,
       (upload_single ?req w)\<lparr>files := files (upload_single ?req w) - {path f}\<rparr>)"
    using assms(1-3) by (intro register2_duplicate) simp_all
  then have 2: "post_register2 e ?req w =
      (\<lparr>status = 400, payload = Message ''User already registered with this email''\<rparr>,
       w\<lparr>files := files w - {path f}\<rparr>)"
    by (simp only: post_register2_def upload_then_unlink)
  have 3: "w\<lparr>files := files w - {path f}\<rparr> = w" if "path f \<notin> files w"
    using that by simp
  show ?thesis
    by (simp add: 1 2 3)
qed

theorem C4_duplicate_policy_witness:
  "\<not> missing_required ana \<and> handle env1 \<and> fault env1 FindOne = None \<and>
   ana ''email'' = Some ''a@x.com'' \<and>
   ''a@x.com'' \<in> email ` set (users (snd (register1 env0 ana empty_world))) \<and>
   status (projr (fst (register1 env1 ana (snd (register1 env0 ana empty_world))))) = 200 \<and>
   status (fst (post_register2 env1 \<lparr>req_body = ana, req_file = Some receipt'\<rparr>
     (snd (register1 env0 ana empty_world)))) = 400"
  using C4_duplicate_policy [of ana env1 "''a@x.com''" "snd (register1 env0 ana empty_world)" receipt']
  by (simp add: ana_world1) (simp add: input_defs missing_required_def truthy_def)

text \<open>
  C6, where it fails. In the first version the exception of the \<^verbatim>\<open>ObjectId\<close> constructor
  leaves the handler: the handler writes no response. The records are untouched.
\<close>

theorem C6_no_response_counterexample:
  "delete1 env0 ''not-an-id'' (snd (register1 env0 ana empty_world)) =
     (Inl (BSONError ''input must be a 24 character hex string, 12 byte Uint8Array, or an integer''),
      snd (register1 env0 ana empty_world))"
  by (simp add: delete1_def env0_def hex24_def)

text \<open>
  C6, as the code has it. On an identifier the constructor rejects, the second version
  answers with status 500 and the message \<^verbatim>\<open>Failed to delete user\<close>, and leaves records
  and files as they were. The first version leaves the records as they were too, but what
  the constructor throws leaves the handler and no response is written by it.
\<close>

theorem C6_malformed_identifier:
  assumes "ObjectId e i = Inl x"
  shows "delete2 e i w = (\<lparr>status = 500, payload = Message ''Failed to delete user''\<rparr>, w) \<and>
         snd (delete1 e i w) = w \<and> isl (fst (delete1 e i w)) \<and>
         (handle e \<longrightarrow> fst (delete1 e i w) = Inl x)"
  using assms by (simp add: delete2_def delete1_def delete_failed_def status_json_def)

theorem C6_malformed_identifier_witness:
  "ObjectId env0 ''not-an-id'' =
     Inl (BSONError ''input must be a 24 character hex string, 12 byte Uint8Array, or an integer'') \<and>
   delete2 env0 ''not-an-id'' (snd (post_register2 env0 \<lparr>req_body = ana, req_file = Some receipt\<rparr> empty_world)) =
     (\<lparr>status = 500, payload = Message ''Failed to delete user''\<rparr>,
      snd (post_register2 env0 \<lparr>req_body = ana, req_file = Some receipt\<rparr> empty_world))"
  using C6_malformed_identifier [of env0 "''not-an-id''"
      "BSONError ''input must be a 24 character hex string, 12 byte Uint8Array, or an integer''"
      "snd (post_register2 env0 \<lparr>req_body = ana, req_file = Some receipt\<rparr> empty_world)"]
  by (simp add: env0_def hex24_def)

section \<open>Statistics\<close>








text \<open>The scenario of the specification: one registration, then the statistics.\<close>

lemma scenario:
  "get_stats2 env1 (snd (post_register2 env0 \<lparr>req_body = ana, req_file = Some receipt\<rparr> empty_world)) =
     \<lparr>status = 200, payload = Stats \<lparr>total = 1, male = 0, female = 1, beginners = 1,
        competition = 1, workshop = 1\<rparr>\<rparr>"
  by (simp add: ana_world2) (simp add: get_stats2_def count_all_def await_def countDocuments_def
      usersCollection_def env1_def env0_def json_def)

section \<open>Listing\<close>




section \<open>Parsing the age\<close>























section \<open>Deleting\<close>

lemma remove_first_unique:
  "distinct (map ident us) \<Longrightarrow>
   remove_first (\<lambda>u. ident u = oid) us = filter (\<lambda>v. ident v \<noteq> oid) us"
proof (induction us)
  case Nil
  then show ?case by simp
next
  case (Cons u us)
  show ?case
  proof (cases "ident u = oid")
    case True
    with Cons.prems have "oid \<notin> ident ` set us"
      by auto
    then have "\<forall>v \<in> set us. ident v \<noteq> oid"
      by blast
    then have "filter (\<lambda>v. ident v \<noteq> oid) us = us"
      by (simp add: filter_id_conv)
    with True show ?thesis by simp
  next
    case False
    with Cons show ?thesis by simp
  qed
qed

lemma remove_first_absent:
  "oid \<notin> ident ` set us \<Longrightarrow> remove_first (\<lambda>u. ident u = oid) us = us"
  by (induction us) auto

lemma remove_image_eq: "remove_image found w = Inr (w\<lparr>files := files w - image_paths found\<rparr>)"
  by (auto simp: remove_image_def image_paths_def existsSync_def unlinkSync_def
      split: option.splits)

lemma find_ident_unique:
  assumes "distinct (map ident us)" and "u \<in> set us" and "ident u = oid"
  shows "find (\<lambda>v. ident v = oid) us = Some u"
  using assms
proof (induction us)
  case Nil
  then show ?case by simp
next
  case (Cons v us)
  then show ?case by (cases "v = u") auto
qed

lemma find_ident_absent: "oid \<notin> ident ` set us \<Longrightarrow> find (\<lambda>v. ident v = oid) us = None"
  by (auto simp: find_None_iff)

lemma find_ident_Some: "find (\<lambda>v. ident v = oid) us = Some u \<Longrightarrow> u \<in> set us \<and> ident u = oid"
  by (induction us) (auto split: if_splits)

lemma delete1_ok:
  assumes "handle e" and "fault e DeleteOne = None" and "ObjectId e i = Inr oid"
  shows "delete1 e i w =
    (Inr \<lparr>status = 200, payload = Message ''User deleted successfully''\<rparr>,
     w\<lparr>users := remove_first (\<lambda>u. ident u = oid) (users w)\<rparr>)"
  using assms by (simp add: delete1_def deleteOne_def usersCollection_def json_def)

lemma delete2_ok:
  assumes "handle e" and "fault e FindOne = None" and "fault e DeleteOne = None"
    and "ObjectId e i = Inr oid"
  shows "delete2 e i w =
    (\<lparr>status = 200, payload = Message ''User deleted successfully''\<rparr>,
     \<lparr>users = remove_first (\<lambda>u. ident u = oid) (users w),
      files = files w - image_paths (find (\<lambda>u. ident u = oid) (users w))\<rparr>)"
  using assms
  by (simp add: delete2_def findOne_def deleteOne_def usersCollection_def json_def remove_image_eq)

lemma delete2_store_fails_late:
  assumes "handle e" and "fault e FindOne = None" and "fault e DeleteOne = Some x"
    and "ObjectId e i = Inr oid"
  shows "delete2 e i w =
    (\<lparr>status = 500, payload = Message ''Failed to delete user''\<rparr>,
     w\<lparr>files := files w - image_paths (find (\<lambda>u. ident u = oid) (users w))\<rparr>)"
  using assms
  by (simp add: delete2_def findOne_def deleteOne_def usersCollection_def delete_failed_def
      status_json_def remove_image_eq)

lemma idents_step1:
  "ident ` set (users (snd (step1 c w))) \<subseteq> ident ` set (users w) \<union> issued [c]"
proof (cases c)
  case (Pair e k)
  show ?thesis
  proof (cases k)
    case (PostRegister b)
    with Pair register1_effect [of e b w] show ?thesis by auto
  next
    case (DeleteUser i)
    with Pair delete1_users [of e i w] set_remove_first show ?thesis by fastforce
  qed (use Pair in auto)
qed

lemma idents_step2:
  "ident ` set (users (snd (step2 c w))) \<subseteq> ident ` set (users w) \<union> issued [c]"
proof (cases c)
  case (Pair e k)
  show ?thesis
  proof (cases k)
    case (PostRegister req)
    with Pair register2_effect [of e req "upload_single req w"] show ?thesis
      by (auto simp: post_register2_def users_upload_single)
  next
    case (DeleteUser i)
    with Pair delete2_users [of e i w] set_remove_first show ?thesis by fastforce
  qed (use Pair in auto)
qed

lemma issued_Cons: "issued (c # cs) = issued [c] \<union> issued cs"
proof (cases c)
  case (Pair e k)
  then show ?thesis by (cases k) auto
qed

lemma idents_run1: "ident ` set (users (run1 cs w)) \<subseteq> ident ` set (users w) \<union> issued cs"
proof (induction cs arbitrary: w)
  case Nil
  then show ?case by simp
next
  case (Cons c cs)
  have "ident ` set (users (run1 cs (snd (step1 c w)))) \<subseteq>
      ident ` set (users (snd (step1 c w))) \<union> issued cs"
    by (rule Cons.IH)
  with idents_step1 [of c w] show ?case
    unfolding run1.simps issued_Cons [of c cs] by blast
qed

lemma idents_run2: "ident ` set (users (run2 cs w)) \<subseteq> ident ` set (users w) \<union> issued cs"
proof (induction cs arbitrary: w)
  case Nil
  then show ?case by simp
next
  case (Cons c cs)
  have "ident ` set (users (run2 cs (snd (step2 c w)))) \<subseteq>
      ident ` set (users (snd (step2 c w))) \<union> issued cs"
    by (rule Cons.IH)
  with idents_step2 [of c w] show ?case
    unfolding run2.simps issued_Cons [of c cs] by blast
qed

lemma image_paths_found:
  "p \<in> image_paths (find (\<lambda>u. ident u = oid) us) \<Longrightarrow>
   \<exists>u \<in> set us. ident u = oid \<and> paymentScreenshotPath u = Some p"
  by (auto simp: image_paths_def split: option.splits if_splits dest: find_ident_Some)

lemma image_paths_unique:
  assumes "distinct (map ident us)" and "u \<in> set us" and "ident u = oid"
    and "paymentScreenshotPath u = Some p" and "p \<noteq> []"
  shows "p \<in> image_paths (find (\<lambda>u. ident u = oid) us)"
  using find_ident_unique [OF assms(1-3)] assms(4,5) by (simp add: image_paths_def)

lemma delete2_files:
  assumes "handle e" and "fault e FindOne = None" and "ObjectId e i = Inr oid"
  shows "files (snd (delete2 e i w)) = files w - image_paths (find (\<lambda>u. ident u = oid) (users w))"
proof (cases "fault e DeleteOne")
  case None
  with assms show ?thesis by (simp add: delete2_ok)
next
  case (Some x)
  with assms show ?thesis by (simp add: delete2_store_fails_late)
qed

text \<open>Identifiers stay unique in every state reached by calls one after another.\<close>

lemma step1_unique_idents: "unique_idents w \<Longrightarrow> unique_idents (snd (step1 c w))"
proof (cases c)
  case (Pair e k)
  assume u: "unique_idents w"
  show ?thesis
  proof (cases k)
    case (PostRegister b)
    with Pair u show ?thesis by (simp add: register1_unique_idents)
  next
    case (DeleteUser i)
    with Pair u delete1_users [of e i w] show ?thesis
      by (auto simp: unique_idents_def distinct_map_remove_first)
  qed (use Pair u in simp_all)
qed

lemma step2_unique_idents: "unique_idents w \<Longrightarrow> unique_idents (snd (step2 c w))"
proof (cases c)
  case (Pair e k)
  assume u: "unique_idents w"
  then have u': "unique_idents (upload_single r w)" for r
    by (simp add: unique_idents_def users_upload_single)
  show ?thesis
  proof (cases k)
    case (PostRegister req)
    with Pair u' show ?thesis
      by (simp add: post_register2_def register2_unique_idents)
  next
    case (DeleteUser i)
    with Pair u delete2_users [of e i w] show ?thesis
      by (auto simp: unique_idents_def distinct_map_remove_first)
  qed (use Pair u in simp_all)
qed

lemma run1_unique_idents: "unique_idents w \<Longrightarrow> unique_idents (run1 cs w)"
  by (induction cs arbitrary: w) (simp_all add: step1_unique_idents)

lemma run2_unique_idents: "unique_idents w \<Longrightarrow> unique_idents (run2 cs w)"
  by (induction cs arbitrary: w) (simp_all add: step2_unique_idents)

text \<open>Records written by the first version have no image.\<close>

lemma no_images_step1:
  assumes "\<forall>u \<in> set (users w). paymentScreenshotPath u = None"
  shows "\<forall>u \<in> set (users (snd (step1 c w))). paymentScreenshotPath u = None"
proof (cases c)
  case (Pair e k)
  show ?thesis
  proof (cases k)
    case (PostRegister b)
    with Pair assms register1_effect [of e b w] show ?thesis
      by (auto simp: new_user1_def)
  next
    case (DeleteUser i)
    with Pair assms delete1_users [of e i w] set_remove_first show ?thesis
      by fastforce
  qed (use Pair assms in auto)
qed

lemma no_images_run1:
  "\<forall>u \<in> set (users w). paymentScreenshotPath u = None \<Longrightarrow>
   \<forall>u \<in> set (users (run1 cs w)). paymentScreenshotPath u = None"
proof (induction cs arbitrary: w)
  case Nil
  then show ?case by simp
next
  case (Cons c cs)
  from Cons.prems have "\<forall>u \<in> set (users (snd (step1 c w))). paymentScreenshotPath u = None"
    by (rule no_images_step1)
  then show ?case
    unfolding run1.simps by (rule Cons.IH)
qed

text \<open>
  C5. Let the identifier be well formed, the lookup go through, and identifiers be unique
  in the store. If the store performs the deletion, both versions answer with status 200
  and the records left are those with another identifier; no later state has a record of
  that identifier unless the driver hands the identifier out again; and when no record
  has the identifier, the world is unchanged and the answer is the same success. In
  the second version the image of the record is not on the disk afterwards, whether or
  not it was there before, and no other file is removed. The image goes first: when the
  deletion then fails in the store, the answer is 500, the record is still there, and
  the image is gone. The first version removes no file, and the records it has written
  have no image.
\<close>

theorem C5_delete_registration:
  assumes "handle e" and "fault e FindOne = None" and "ObjectId e i = Inr oid"
    and "unique_idents w"
  shows
    "(\<forall>u \<in> set (users (run1 cs0 empty_world)). paymentScreenshotPath u = None) \<and>
     files (snd (delete1 e i w)) = files w \<and>
     (fault e DeleteOne = None \<longrightarrow>
        delete1 e i w =
          (Inr \<lparr>status = 200, payload = Message ''User deleted successfully''\<rparr>,
           w\<lparr>users := filter (\<lambda>v. ident v \<noteq> oid) (users w)\<rparr>) \<and>
        fst (delete2 e i w) = \<lparr>status = 200, payload = Message ''User deleted successfully''\<rparr> \<and>
        users (snd (delete2 e i w)) = filter (\<lambda>v. ident v \<noteq> oid) (users w) \<and>
        (oid \<notin> issued cs1 \<longrightarrow> oid \<notin> ident ` set (users (run1 cs1 (snd (delete1 e i w))))) \<and>
        (oid \<notin> issued cs2 \<longrightarrow> oid \<notin> ident ` set (users (run2 cs2 (snd (delete2 e i w))))) \<and>
        (oid \<notin> ident ` set (users w) \<longrightarrow> snd (delete1 e i w) = w \<and> snd (delete2 e i w) = w)) \<and>
     (\<forall>u \<in> set (users w). ident u = oid \<longrightarrow>
        (\<forall>p. paymentScreenshotPath u = Some p \<and> p \<noteq> [] \<longrightarrow> p \<notin> files (snd (delete2 e i w)))) \<and>
     files (snd (delete2 e i w)) \<subseteq> files w \<and>
     files w - files (snd (delete2 e i w)) \<subseteq>
       {p. \<exists>u \<in> set (users w). ident u = oid \<and> paymentScreenshotPath u = Some p} \<and>
     (fault e DeleteOne \<noteq> None \<longrightarrow>
        fst (delete2 e i w) = \<lparr>status = 500, payload = Message ''Failed to delete user''\<rparr> \<and>
        users (snd (delete2 e i w)) = users w)"
    (is "?N \<and> ?M \<and> (_ \<longrightarrow> ?A) \<and> ?B \<and> ?C \<and> ?D \<and> ?E")
proof -
  have "?N"
    by (rule no_images_run1) (simp add: empty_world_def)
  moreover have "?M"
    by (simp add: delete1_def deleteOne_def split: sum.splits option.splits)
  moreover
  let ?rest = "filter (\<lambda>v. ident v \<noteq> oid) (users w)"
  let ?gone = "image_paths (find (\<lambda>u. ident u = oid) (users w))"
  from assms(4) have d: "distinct (map ident (users w))"
    by (simp add: unique_idents_def)
  then have rf: "remove_first (\<lambda>u. ident u = oid) (users w) = ?rest"
    by (rule remove_first_unique)
  have fl: "files (snd (delete2 e i w)) = files w - ?gone"
    using assms(1-3) by (rule delete2_files)
  have "?A" if ok: "fault e DeleteOne = None"
  proof -
    have 1: "delete1 e i w =
          (Inr \<lparr>status = 200, payload = Message ''User deleted successfully''\<rparr>,
           w\<lparr>users := ?rest\<rparr>)"
      using delete1_ok [OF assms(1) ok assms(3), of w] by (simp add: rf)
    have 2: "delete2 e i w =
          (\<lparr>status = 200, payload = Message ''User deleted successfully''\<rparr>,
           \<lparr>users = ?rest, files = files w - ?gone\<rparr>)"
      using delete2_ok [OF assms(1,2) ok assms(3), of w] by (simp add: rf)
    have gone: "oid \<notin> ident ` set ?rest"
      by auto
    have 3: "oid \<notin> ident ` set (users (run1 cs1 (snd (delete1 e i w))))" if "oid \<notin> issued cs1"
      using idents_run1 [of cs1 "snd (delete1 e i w)"] that gone by (auto simp: 1)
    have 4: "oid \<notin> ident ` set (users (run2 cs2 (snd (delete2 e i w))))" if "oid \<notin> issued cs2"
      using idents_run2 [of cs2 "snd (delete2 e i w)"] that gone by (auto simp: 2)
    have 5: "snd (delete1 e i w) = w \<and> snd (delete2 e i w) = w" if "oid \<notin> ident ` set (users w)"
    proof -
      from that have "remove_first (\<lambda>u. ident u = oid) (users w) = users w"
        by (rule remove_first_absent)
      with rf have "?rest = users w" by simp
      moreover from that have "?gone = {}"
        by (simp add: find_ident_absent image_paths_def)
      ultimately show ?thesis by (simp add: 1 2)
    qed
    from 1 2 3 4 5 show ?thesis by simp
  qed
  moreover have "?B"
  proof (intro ballI impI allI)
    fix u p
    assume "u \<in> set (users w)" "ident u = oid" "paymentScreenshotPath u = Some p \<and> p \<noteq> []"
    then have "p \<in> ?gone"
      using d by (intro image_paths_unique) auto
    then show "p \<notin> files (snd (delete2 e i w))"
      by (simp add: fl)
  qed
  moreover have "?C"
    by (auto simp: fl)
  moreover have "?D"
    using image_paths_found [of _ oid "users w"] by (auto simp: fl)
  moreover have "?E"
  proof
    assume "fault e DeleteOne \<noteq> None"
    then obtain x where "fault e DeleteOne = Some x" by auto
    from delete2_store_fails_late [OF assms(1,2) this assms(3), of w]
    show "fst (delete2 e i w) = \<lparr>status = 500, payload = Message ''Failed to delete user''\<rparr> \<and>
        users (snd (delete2 e i w)) = users w"
      by simp
  qed
  ultimately show ?thesis
    by blast
qed

lemma hex24_example: "hex24 ''65a000000000000000000001'' = Inr ''65a000000000000000000001''"
  by (simp add: hex24_def isHexDigit_def isRadixDigit_def digitValue_def)

theorem C5_delete_registration_witness:
  "handle env1 \<and> fault env1 FindOne = None \<and> fault env1 DeleteOne = None \<and>
   ObjectId env1 ''65a000000000000000000001'' = Inr ''65a000000000000000000001'' \<and>
   unique_idents (snd (post_register2 env0 \<lparr>req_body = ana, req_file = Some receipt\<rparr> empty_world)) \<and>
   ''/app/payments/1700000000000_555_pay.png'' \<in>
     files (snd (post_register2 env0 \<lparr>req_body = ana, req_file = Some receipt\<rparr> empty_world)) \<and>
   fst (delete2 env1 ''65a000000000000000000001''
     (snd (post_register2 env0 \<lparr>req_body = ana, req_file = Some receipt\<rparr> empty_world))) =
     \<lparr>status = 200, payload = Message ''User deleted successfully''\<rparr> \<and>
   users (snd (delete2 env1 ''65a000000000000000000001''
     (snd (post_register2 env0 \<lparr>req_body = ana, req_file = Some receipt\<rparr> empty_world)))) = [] \<and>
   ''/app/payments/1700000000000_555_pay.png'' \<notin> files (snd (delete2 env1 ''65a000000000000000000001''
     (snd (post_register2 env0 \<lparr>req_body = ana, req_file = Some receipt\<rparr> empty_world))))"
proof -
  let ?w = "snd (post_register2 env0 \<lparr>req_body = ana, req_file = Some receipt\<rparr> empty_world)"
  have h: "handle env1" "fault env1 FindOne = None"
    "ObjectId env1 ''65a000000000000000000001'' = Inr ''65a000000000000000000001''"
    "unique_idents ?w"
    by (simp_all add: ana_world2 unique_idents_def) (simp_all add: env1_def env0_def hex24_example)
  have k: "fault env1 DeleteOne = None"
    by (simp add: env1_def env0_def)
  from C5_delete_registration [OF h, of "[]" "[]" "[]"] h k show ?thesis
    by (simp add: ana_world2)
qed

section \<open>Start of the process: what requests meet\<close>















end
